theory Spec2Isabelle
  imports Main "HOL-Library.AList" "HOL-Library.Char_ord" "HOL-Library.List_Lexorder"
begin

section \<open>The asset registry chaincode (utilityGo/main.go)\<close>

subsection \<open>Data model\<close>

text \<open>
  The Go struct \<^verbatim>\<open>Asset\<close> (main.go, lines 20-27). The three flags are Go \<^verbatim>\<open>int\<close>s;
  the contract only stores them and assigns the constant 1, it never computes with
  them, so they are modelled as \<open>int\<close>.
\<close>

record Asset =
  ID :: string
  Description :: string
  Owner :: string
  ApprovalOne :: int
  ApprovalTwo :: int
  Registered :: int

text \<open>
  The Go struct \<^verbatim>\<open>QueryResult\<close> (lines 30-33). \<^verbatim>\<open>Record\<close> is a pointer that
  \<^verbatim>\<open>GetAllAssets\<close> always sets to a freshly decoded asset.
\<close>

record QueryResult =
  Key :: string
  Record :: Asset

text \<open>
  Values held by the world state. The contract produces them with
  \<^verbatim>\<open>json.Marshal\<close> and reads them with \<^verbatim>\<open>json.Unmarshal\<close>; both belong to Go's
  standard library, not to this repository. The byte level is abstracted:
  \<open>Encoded a\<close> is a JSON object whose six members carry the fields of \<open>a\<close>, the strings
  byte for byte; \<open>Malformed raw\<close> is a value \<open>raw\<close> that \<^verbatim>\<open>json.Unmarshal\<close> rejects.
\<close>

datatype bytes = Encoded Asset | Malformed string

text \<open>
  The errors the contract returns. Go represents each as an \<^verbatim>\<open>error\<close> with a message:
  \<^item> \<open>StubError msg\<close>: an error of a stub call returned unchanged (\<^verbatim>\<open>return err\<close>);
  \<^item> \<open>ReadFailure msg\<close>: \<^verbatim>\<open>"Failed to read from world state. %s"\<close>;
  \<^item> \<open>PutFailure msg\<close>: \<^verbatim>\<open>"Failed to put to world state. %s"\<close>;
  \<^item> \<open>AlreadyExists aid\<close>: \<^verbatim>\<open>"The asset %s already exists"\<close>;
  \<^item> \<open>NotFound aid\<close>: \<^verbatim>\<open>"The asset %s does not exist"\<close>;
  \<^item> \<open>DecodeFailure raw\<close>: the error of \<^verbatim>\<open>json.Unmarshal\<close> on the value \<open>raw\<close>.
\<close>

datatype error =
    StubError string
  | ReadFailure string
  | PutFailure string
  | AlreadyExists string
  | NotFound string
  | DecodeFailure string

subsection \<open>The chaincode stub\<close>

text \<open>
  \<^verbatim>\<open>ctx.GetStub()\<close> is an interface of the Fabric platform. Its model is the world
  state, an association list from keys to values read through \<open>map_of\<close>, and a
  fault table: \<open>fault stub c = Some msg\<close> when the platform answers the call \<open>c\<close> with
  an error whose message is \<open>msg\<close>. A call that fails leaves the world state as it
  was. \<open>NextCall i\<close> is the \<open>i\<close>-th call of \<^verbatim>\<open>Next\<close> on a range iterator.
\<close>

datatype call =
    GetStateCall string
  | PutStateCall string bytes
  | DelStateCall string
  | GetStateByRangeCall string string
  | NextCall nat

record ChaincodeStub =
  world :: "(string \<times> bytes) list"
  fault :: "call \<Rightarrow> string option"

definition GetState :: "ChaincodeStub \<Rightarrow> string \<Rightarrow> string + bytes option" where
  "GetState stub k =
     (case fault stub (GetStateCall k) of
        Some msg \<Rightarrow> Inl msg
      | None \<Rightarrow> Inr (map_of (world stub) k))"

definition PutState :: "ChaincodeStub \<Rightarrow> string \<Rightarrow> bytes \<Rightarrow> string option \<times> ChaincodeStub" where
  "PutState stub k v =
     (case fault stub (PutStateCall k v) of
        Some msg \<Rightarrow> (Some msg, stub)
      | None \<Rightarrow> (None, stub\<lparr>world := AList.update k v (world stub)\<rparr>))"

definition DelState :: "ChaincodeStub \<Rightarrow> string \<Rightarrow> string option \<times> ChaincodeStub" where
  "DelState stub k =
     (case fault stub (DelStateCall k) of
        Some msg \<Rightarrow> (Some msg, stub)
      | None \<Rightarrow> (None, stub\<lparr>world := AList.delete k (world stub)\<rparr>))"

text \<open>
  The entries a range scan iterates over: the current entries of the world state in
  the lexicographic order of their keys, from \<open>startKey\<close> (inclusive) to \<open>endKey\<close>
  (exclusive), an empty \<open>endKey\<close> meaning no upper bound.
\<close>

definition range_entries :: "ChaincodeStub \<Rightarrow> string \<Rightarrow> string \<Rightarrow> (string \<times> bytes) list" where
  "range_entries stub startKey endKey =
     filter (\<lambda>kv. startKey \<le> fst kv \<and> (endKey = [] \<or> fst kv < endKey))
       (sort_key fst (AList.clearjunk (world stub)))"

definition GetStateByRange ::
  "ChaincodeStub \<Rightarrow> string \<Rightarrow> string \<Rightarrow> string + (string \<times> bytes) list" where
  "GetStateByRange stub startKey endKey =
     (case fault stub (GetStateByRangeCall startKey endKey) of
        Some msg \<Rightarrow> Inl msg
      | None \<Rightarrow> Inr (range_entries stub startKey endKey))"

subsection \<open>UTF-8, as Go's standard library reads it\<close>

text \<open>
  A Go \<^verbatim>\<open>string\<close> is any sequence of bytes. \<^verbatim>\<open>encoding/json\<close> writes and reads strings
  as UTF-8: \<^verbatim>\<open>json.Marshal\<close> documents that string values are "coerced to valid UTF-8,
  replacing invalid bytes with the Unicode replacement rune", and \<^verbatim>\<open>json.Unmarshal\<close>
  does the same to the string literals it reads. Both walk the string with
  \<^verbatim>\<open>utf8.DecodeRune\<close>; where it reports an error of width 1 the byte becomes U+FFFD,
  whose encoding is the three bytes \<^verbatim>\<open>EF BF BD\<close>.

  \<open>sequence_length s\<close> is the width \<^verbatim>\<open>utf8.DecodeRuneInString\<close> finds at the head of
  \<open>s\<close>, with 0 for its error of width 1: one byte below \<^verbatim>\<open>80\<close>; a lead byte
  \<^verbatim>\<open>C2..DF\<close>, \<^verbatim>\<open>E0..EF\<close> or \<^verbatim>\<open>F0..F4\<close> followed by one, two or three continuation
  bytes \<^verbatim>\<open>80..BF\<close>, the first of them in the narrower range that the lead bytes
  \<^verbatim>\<open>E0\<close>, \<^verbatim>\<open>ED\<close>, \<^verbatim>\<open>F0\<close> and \<^verbatim>\<open>F4\<close> accept.
\<close>

definition continuation :: "char \<Rightarrow> bool" where
  "continuation c \<longleftrightarrow> CHR 0x80 \<le> c \<and> c \<le> CHR 0xBF"

definition accept_lo :: "char \<Rightarrow> char" where
  "accept_lo s0 =
     (if s0 = CHR 0xE0 then CHR 0xA0 else if s0 = CHR 0xF0 then CHR 0x90 else CHR 0x80)"

definition accept_hi :: "char \<Rightarrow> char" where
  "accept_hi s0 =
     (if s0 = CHR 0xED then CHR 0x9F else if s0 = CHR 0xF4 then CHR 0x8F else CHR 0xBF)"

fun sequence_length :: "string \<Rightarrow> nat" where
  "sequence_length [] = 0"
| "sequence_length (s0 # rest) =
     (if s0 < CHR 0x80 then 1
      else if s0 < CHR 0xC2 then 0
      else if s0 \<le> CHR 0xDF then
        (case rest of
           s1 # _ \<Rightarrow> if continuation s1 then 2 else 0
         | _ \<Rightarrow> 0)
      else if s0 \<le> CHR 0xEF then
        (case rest of
           s1 # s2 # _ \<Rightarrow>
             if accept_lo s0 \<le> s1 \<and> s1 \<le> accept_hi s0 \<and> continuation s2 then 3 else 0
         | _ \<Rightarrow> 0)
      else if s0 \<le> CHR 0xF4 then
        (case rest of
           s1 # s2 # s3 # _ \<Rightarrow>
             if accept_lo s0 \<le> s1 \<and> s1 \<le> accept_hi s0 \<and> continuation s2 \<and> continuation s3
             then 4 else 0
         | _ \<Rightarrow> 0)
      else 0)"

definition replacement :: string where
  "replacement = [CHR 0xEF, CHR 0xBF, CHR 0xBD]"

text \<open>The coercion: well-formed sequences are kept, every other byte becomes U+FFFD.\<close>

function coerce_utf8 :: "string \<Rightarrow> string" where
  "coerce_utf8 [] = []"
| "coerce_utf8 (c # cs) =
     (if sequence_length (c # cs) = 0 then replacement @ coerce_utf8 cs
      else take (sequence_length (c # cs)) (c # cs) @
           coerce_utf8 (drop (sequence_length (c # cs)) (c # cs)))"
  by pat_completeness auto
termination
  by (relation "measure length") auto

text \<open>\<^verbatim>\<open>utf8.ValidString\<close>: the string is a sequence of well-formed sequences.\<close>

function ValidString :: "string \<Rightarrow> bool" where
  "ValidString [] = True"
| "ValidString (c # cs) =
     (if sequence_length (c # cs) = 0 then False
      else ValidString (drop (sequence_length (c # cs)) (c # cs)))"
  by pat_completeness auto
termination
  by (relation "measure length") auto

subsection \<open>The JSON codec\<close>

text \<open>
  What the codec does to an asset: the three strings are coerced, the three ints are
  written and read in decimal, unchanged.
\<close>

definition coerce_asset :: "Asset \<Rightarrow> Asset" where
  "coerce_asset asset =
     asset\<lparr>ID := coerce_utf8 (ID asset), Description := coerce_utf8 (Description asset),
           Owner := coerce_utf8 (Owner asset)\<rparr>"

text \<open>
  \<^verbatim>\<open>json.Marshal\<close> of an \<^verbatim>\<open>Asset\<close> (three strings, three ints) has no failing case;
  the result type keeps the error branch the callers test.
\<close>

definition json_Marshal :: "Asset \<Rightarrow> error + bytes" where
  "json_Marshal asset = Inr (Encoded (coerce_asset asset))"

definition json_Unmarshal :: "bytes \<Rightarrow> error + Asset" where
  "json_Unmarshal b =
     (case b of
        Encoded asset \<Rightarrow> Inr (coerce_asset asset)
      | Malformed raw \<Rightarrow> Inl (DecodeFailure raw))"

subsection \<open>The contract\<close>

text \<open>
  A transaction function that returns \<^verbatim>\<open>error\<close> is modelled as a function to
  \<open>error option \<times> ChaincodeStub\<close>: the error (\<open>None\<close> for \<^verbatim>\<open>nil\<close>) and the stub after
  the call. A function that only reads returns \<open>error + result\<close>. The Go parameter
  \<^verbatim>\<open>id\<close> is written \<open>aid\<close>, since \<open>id\<close> is the identity function of HOL.
\<close>

text \<open>\<^verbatim>\<open>AssetExists\<close>, lines 146-153.\<close>

definition AssetExists :: "ChaincodeStub \<Rightarrow> string \<Rightarrow> error + bool" where
  "AssetExists stub aid =
     (case GetState stub aid of
        Inl msg \<Rightarrow> Inl (ReadFailure msg)
      | Inr assetJSON \<Rightarrow> Inr (assetJSON \<noteq> None))"

text \<open>\<^verbatim>\<open>ReadAsset\<close>, lines 85-101.\<close>

definition ReadAsset :: "ChaincodeStub \<Rightarrow> string \<Rightarrow> error + Asset" where
  "ReadAsset stub aid =
     (case GetState stub aid of
        Inl msg \<Rightarrow> Inl (ReadFailure msg)
      | Inr None \<Rightarrow> Inl (NotFound aid)
      | Inr (Some assetJSON) \<Rightarrow> json_Unmarshal assetJSON)"

text \<open>
  The common tail of the writing functions:
  \<^verbatim>\<open>assetJSON, err := json.Marshal(asset); if err != nil { return err };
  return ctx.GetStub().PutState(id, assetJSON)\<close>.
\<close>

definition marshal_and_put :: "ChaincodeStub \<Rightarrow> string \<Rightarrow> Asset \<Rightarrow> error option \<times> ChaincodeStub" where
  "marshal_and_put stub aid asset =
     (case json_Marshal asset of
        Inl err \<Rightarrow> (Some err, stub)
      | Inr assetJSON \<Rightarrow>
          (case PutState stub aid assetJSON of
             (Some msg, stub') \<Rightarrow> (Some (StubError msg), stub')
           | (None, stub') \<Rightarrow> (None, stub')))"

text \<open>\<^verbatim>\<open>InitLedger\<close>, lines 36-55: the loop over the two fixed assets.\<close>

definition init_assets :: "Asset list" where
  "init_assets =
     [\<lparr>ID = ''asset1'', Description = ''myAsset'', Owner = ''Org1'',
        ApprovalOne = 0, ApprovalTwo = 0, Registered = 0\<rparr>,
      \<lparr>ID = ''asset2'', Description = ''anotherAsset'', Owner = ''Org1'',
        ApprovalOne = 0, ApprovalTwo = 0, Registered = 0\<rparr>]"

fun InitLedger_loop :: "ChaincodeStub \<Rightarrow> Asset list \<Rightarrow> error option \<times> ChaincodeStub" where
  "InitLedger_loop stub [] = (None, stub)"
| "InitLedger_loop stub (asset # assets) =
     (case json_Marshal asset of
        Inl err \<Rightarrow> (Some err, stub)
      | Inr assetJSON \<Rightarrow>
          (case PutState stub (ID asset) assetJSON of
             (Some msg, stub') \<Rightarrow> (Some (PutFailure msg), stub')
           | (None, stub') \<Rightarrow> InitLedger_loop stub' assets))"

definition InitLedger :: "ChaincodeStub \<Rightarrow> error option \<times> ChaincodeStub" where
  "InitLedger stub = InitLedger_loop stub init_assets"

text \<open>\<^verbatim>\<open>CreateAsset\<close>, lines 58-82.\<close>

definition CreateAsset ::
  "ChaincodeStub \<Rightarrow> string \<Rightarrow> string \<Rightarrow> string \<Rightarrow> int \<Rightarrow> int \<Rightarrow> int
     \<Rightarrow> error option \<times> ChaincodeStub" where
  "CreateAsset stub aid description owner approvalOne approvalTwo registered =
     (case AssetExists stub aid of
        Inl err \<Rightarrow> (Some err, stub)
      | Inr exists \<Rightarrow>
          if exists then (Some (AlreadyExists aid), stub)
          else marshal_and_put stub aid
                 \<lparr>ID = aid, Description = description, Owner = owner,
                  ApprovalOne = approvalOne, ApprovalTwo = approvalTwo,
                  Registered = registered\<rparr>)"

text \<open>\<^verbatim>\<open>UpdateAsset\<close>, lines 104-130.\<close>

definition UpdateAsset ::
  "ChaincodeStub \<Rightarrow> string \<Rightarrow> string \<Rightarrow> string \<Rightarrow> int \<Rightarrow> int \<Rightarrow> int
     \<Rightarrow> error option \<times> ChaincodeStub" where
  "UpdateAsset stub aid description owner approvalOne approvalTwo registered =
     (case AssetExists stub aid of
        Inl err \<Rightarrow> (Some err, stub)
      | Inr exists \<Rightarrow>
          if \<not> exists then (Some (NotFound aid), stub)
          else marshal_and_put stub aid
                 \<lparr>ID = aid, Description = description, Owner = owner,
                  ApprovalOne = approvalOne, ApprovalTwo = approvalTwo,
                  Registered = registered\<rparr>)"

text \<open>\<^verbatim>\<open>DeleteAsset\<close>, lines 133-143.\<close>

definition DeleteAsset :: "ChaincodeStub \<Rightarrow> string \<Rightarrow> error option \<times> ChaincodeStub" where
  "DeleteAsset stub aid =
     (case AssetExists stub aid of
        Inl err \<Rightarrow> (Some err, stub)
      | Inr exists \<Rightarrow>
          if \<not> exists then (Some (NotFound aid), stub)
          else (case DelState stub aid of
                  (Some msg, stub') \<Rightarrow> (Some (StubError msg), stub')
                | (None, stub') \<Rightarrow> (None, stub')))"

text \<open>\<^verbatim>\<open>TransferAsset\<close>, lines 156-170.\<close>

definition TransferAsset :: "ChaincodeStub \<Rightarrow> string \<Rightarrow> string \<Rightarrow> error option \<times> ChaincodeStub" where
  "TransferAsset stub aid newOwner =
     (case ReadAsset stub aid of
        Inl err \<Rightarrow> (Some err, stub)
      | Inr asset \<Rightarrow> marshal_and_put stub aid (asset\<lparr>Owner := newOwner\<rparr>))"

text \<open>\<^verbatim>\<open>ApproveRequestOne\<close>, lines 173-187.\<close>

definition ApproveRequestOne :: "ChaincodeStub \<Rightarrow> string \<Rightarrow> error option \<times> ChaincodeStub" where
  "ApproveRequestOne stub aid =
     (case ReadAsset stub aid of
        Inl err \<Rightarrow> (Some err, stub)
      | Inr asset \<Rightarrow> marshal_and_put stub aid (asset\<lparr>ApprovalOne := 1\<rparr>))"

text \<open>\<^verbatim>\<open>ApproveRequestTwo\<close>, lines 191-206.\<close>

definition ApproveRequestTwo :: "ChaincodeStub \<Rightarrow> string \<Rightarrow> error option \<times> ChaincodeStub" where
  "ApproveRequestTwo stub aid =
     (case ReadAsset stub aid of
        Inl err \<Rightarrow> (Some err, stub)
      | Inr asset \<Rightarrow> marshal_and_put stub aid (asset\<lparr>ApprovalTwo := 1, Registered := 1\<rparr>))"

text \<open>
  \<^verbatim>\<open>GetAllAssets\<close>, lines 209-238. The loop runs over the entries the iterator still
  holds; \<open>i\<close> counts the calls of \<^verbatim>\<open>Next\<close>, \<open>results\<close> is the slice built so far. Every
  error return gives \<^verbatim>\<open>nil\<close> for the slice.
\<close>

fun GetAllAssets_loop ::
  "ChaincodeStub \<Rightarrow> nat \<Rightarrow> (string \<times> bytes) list \<Rightarrow> QueryResult list
     \<Rightarrow> error + QueryResult list" where
  "GetAllAssets_loop stub i [] results = Inr results"
| "GetAllAssets_loop stub i (queryResponse # rest) results =
     (case fault stub (NextCall i) of
        Some msg \<Rightarrow> Inl (StubError msg)
      | None \<Rightarrow>
          (case json_Unmarshal (snd queryResponse) of
             Inl err \<Rightarrow> Inl err
           | Inr asset \<Rightarrow>
               GetAllAssets_loop stub (Suc i) rest
                 (results @ [\<lparr>Key = fst queryResponse, Record = asset\<rparr>])))"

definition GetAllAssets :: "ChaincodeStub \<Rightarrow> error + QueryResult list" where
  "GetAllAssets stub =
     (case GetStateByRange stub [] [] of
        Inl msg \<Rightarrow> Inl (StubError msg)
      | Inr resultsIterator \<Rightarrow> GetAllAssets_loop stub 0 resultsIterator [])"

text \<open>
  The transaction functions of the contract, as the platform can invoke them by name
  (\<^verbatim>\<open>main\<close>, lines 240-252, registers every exported method of \<^verbatim>\<open>SmartContract\<close>).
  \<open>invoke\<close> runs one invocation and returns its error and the stub after it; the three
  functions that only read leave the stub as it is.
\<close>

datatype invocation =
    InitLedgerI
  | CreateAssetI string string string int int int
  | ReadAssetI string
  | UpdateAssetI string string string int int int
  | DeleteAssetI string
  | AssetExistsI string
  | TransferAssetI string string
  | ApproveRequestOneI string
  | ApproveRequestTwoI string
  | GetAllAssetsI

definition error_of :: "error + 'a \<Rightarrow> error option" where
  "error_of r = (case r of Inl err \<Rightarrow> Some err | Inr _ \<Rightarrow> None)"

fun invoke :: "ChaincodeStub \<Rightarrow> invocation \<Rightarrow> error option \<times> ChaincodeStub" where
  "invoke stub InitLedgerI = InitLedger stub"
| "invoke stub (CreateAssetI aid description owner approvalOne approvalTwo registered) =
     CreateAsset stub aid description owner approvalOne approvalTwo registered"
| "invoke stub (ReadAssetI aid) = (error_of (ReadAsset stub aid), stub)"
| "invoke stub (UpdateAssetI aid description owner approvalOne approvalTwo registered) =
     UpdateAsset stub aid description owner approvalOne approvalTwo registered"
| "invoke stub (DeleteAssetI aid) = DeleteAsset stub aid"
| "invoke stub (AssetExistsI aid) = (error_of (AssetExists stub aid), stub)"
| "invoke stub (TransferAssetI aid newOwner) = TransferAsset stub aid newOwner"
| "invoke stub (ApproveRequestOneI aid) = ApproveRequestOne stub aid"
| "invoke stub (ApproveRequestTwoI aid) = ApproveRequestTwo stub aid"
| "invoke stub GetAllAssetsI = (error_of (GetAllAssets stub), stub)"

subsection \<open>Observations used by the properties\<close>

text \<open>The record stored under a key carries \<open>Registered = 1\<close>.\<close>

definition is_registered :: "ChaincodeStub \<Rightarrow> string \<Rightarrow> bool" where
  "is_registered stub k =
     (case map_of (world stub) k of
        Some (Encoded asset) \<Rightarrow> Registered asset = 1
      | Some (Malformed raw) \<Rightarrow> False
      | None \<Rightarrow> False)"

text \<open>
  Two stubs for concrete instances of the properties: one over the world state \<open>w\<close>
  whose calls all succeed, and one that refuses every write and every delete.
\<close>

definition without_faults :: "(string \<times> bytes) list \<Rightarrow> ChaincodeStub" where
  "without_faults w = \<lparr>world = w, fault = (\<lambda>c. None)\<rparr>"

definition read_only :: "(string \<times> bytes) list \<Rightarrow> ChaincodeStub" where
  "read_only w =
     \<lparr>world = w,
      fault = (\<lambda>c. case c of
                 PutStateCall k v \<Rightarrow> Some ''write refused''
               | DelStateCall k \<Rightarrow> Some ''write refused''
               | GetStateCall k \<Rightarrow> None
               | GetStateByRangeCall s e \<Rightarrow> None
               | NextCall i \<Rightarrow> None)\<rparr>"

section \<open>Properties\<close>

subsection \<open>The coercion to UTF-8\<close>

lemma sequence_length_le: "sequence_length s \<le> length s"
  by (cases s) (auto split: list.splits)

lemma sequence_length_take:
  "sequence_length s \<noteq> 0 \<Longrightarrow>
   sequence_length (take (sequence_length s) s @ t) = sequence_length s"
  by (cases s) (auto split: list.splits if_splits)

lemma sequence_length_replacement: "sequence_length (replacement @ t) = 3"
  by (simp add: replacement_def accept_lo_def accept_hi_def continuation_def)

lemma ValidString_replacement: "ValidString (replacement @ t) = ValidString t"
  using sequence_length_replacement [of t]
  by (simp add: replacement_def)

lemma ValidString_take:
  assumes "sequence_length s \<noteq> 0"
  shows "ValidString (take (sequence_length s) s @ t) = ValidString t"
proof -
  let ?n = "sequence_length s"
  from assms obtain a list where s: "s = a # list"
    by (cases s) auto
  with assms have c: "take ?n s @ t = a # (take (?n - 1) list @ t)"
    by (simp del: sequence_length.simps add: take_Cons')
  have l: "sequence_length (take ?n s @ t) = ?n"
    using assms by (rule sequence_length_take)
  have d: "drop ?n (take ?n s @ t) = t"
    using sequence_length_le [of s] by simp
  have "ValidString (take ?n s @ t) =
      (if sequence_length (take ?n s @ t) = 0 then False
       else ValidString (drop (sequence_length (take ?n s @ t)) (take ?n s @ t)))"
    unfolding c by (rule ValidString.simps(2))
  with l d assms show ?thesis
    by simp
qed

text \<open>The coerced string is valid, and a valid string is not changed.\<close>

lemma ValidString_coerce_utf8: "ValidString (coerce_utf8 s)"
proof (induction s rule: coerce_utf8.induct)
  case 1
  show ?case by simp
next
  case (2 c cs)
  show ?case
  proof (cases "sequence_length (c # cs) = 0")
    case True
    with 2 show ?thesis
      by (simp del: sequence_length.simps add: ValidString_replacement)
  next
    case False
    with 2 show ?thesis
      by (simp del: sequence_length.simps add: ValidString_take)
  qed
qed

lemma coerce_utf8_valid: "ValidString s \<Longrightarrow> coerce_utf8 s = s"
proof (induction s rule: coerce_utf8.induct)
  case 1
  show ?case by simp
next
  case (2 c cs)
  from "2.prems" have n: "sequence_length (c # cs) \<noteq> 0"
    by (simp del: sequence_length.simps split: if_splits)
  with "2.prems" have "ValidString (drop (sequence_length (c # cs)) (c # cs))"
    by (simp del: sequence_length.simps)
  with n "2.IH"(2) have "coerce_utf8 (drop (sequence_length (c # cs)) (c # cs)) =
      drop (sequence_length (c # cs)) (c # cs)"
    by blast
  with n show ?case
    by (simp del: sequence_length.simps)
qed

lemma coerce_utf8_idem: "coerce_utf8 (coerce_utf8 s) = coerce_utf8 s"
  by (simp add: coerce_utf8_valid ValidString_coerce_utf8)

lemma coerce_asset_idem: "coerce_asset (coerce_asset asset) = coerce_asset asset"
  by (simp add: coerce_asset_def coerce_utf8_idem)

lemma coerce_asset_fixed_iff:
  "coerce_asset asset = asset \<longleftrightarrow>
   coerce_utf8 (ID asset) = ID asset \<and> coerce_utf8 (Description asset) = Description asset \<and>
   coerce_utf8 (Owner asset) = Owner asset"
  by (cases asset) (simp add: coerce_asset_def)

lemma coerce_asset_flags:
  "coerce_asset asset = asset \<Longrightarrow>
   coerce_asset (asset\<lparr>ApprovalOne := x\<rparr>) = asset\<lparr>ApprovalOne := x\<rparr> \<and>
   coerce_asset (asset\<lparr>ApprovalTwo := y, Registered := z\<rparr>) =
     asset\<lparr>ApprovalTwo := y, Registered := z\<rparr>"
  by (simp add: coerce_asset_fixed_iff)

lemma coerce_asset_Owner:
  "coerce_asset asset = asset \<Longrightarrow>
   coerce_asset (asset\<lparr>Owner := newOwner\<rparr>) = asset\<lparr>Owner := coerce_utf8 newOwner\<rparr>"
  by (cases asset) (simp add: coerce_asset_def)

subsection \<open>What each function computes, call by call\<close>

lemma marshal_and_put_cases:
  "marshal_and_put stub aid asset =
     (case fault stub (PutStateCall aid (Encoded (coerce_asset asset))) of
        None \<Rightarrow>
          (None, stub\<lparr>world := AList.update aid (Encoded (coerce_asset asset)) (world stub)\<rparr>)
      | Some msg \<Rightarrow> (Some (StubError msg), stub))"
  by (simp add: marshal_and_put_def json_Marshal_def PutState_def split: option.splits)

lemma marshal_and_put_ok:
  "fault stub (PutStateCall aid (Encoded (coerce_asset asset))) = None \<Longrightarrow>
   marshal_and_put stub aid asset =
     (None, stub\<lparr>world := AList.update aid (Encoded (coerce_asset asset)) (world stub)\<rparr>)"
  by (simp add: marshal_and_put_cases)

lemma marshal_and_put_fails:
  "fault stub (PutStateCall aid (Encoded (coerce_asset asset))) = Some msg \<Longrightarrow>
   marshal_and_put stub aid asset = (Some (StubError msg), stub)"
  by (simp add: marshal_and_put_cases)

lemma ReadAsset_cases:
  "ReadAsset stub aid =
     (case fault stub (GetStateCall aid) of
        Some msg \<Rightarrow> Inl (ReadFailure msg)
      | None \<Rightarrow>
         (case map_of (world stub) aid of
            None \<Rightarrow> Inl (NotFound aid)
          | Some (Encoded asset) \<Rightarrow> Inr (coerce_asset asset)
          | Some (Malformed raw) \<Rightarrow> Inl (DecodeFailure raw)))"
  by (simp add: ReadAsset_def GetState_def json_Unmarshal_def split: option.splits bytes.splits)

lemma AssetExists_cases:
  "AssetExists stub aid =
     (case fault stub (GetStateCall aid) of
        Some msg \<Rightarrow> Inl (ReadFailure msg)
      | None \<Rightarrow> Inr (map_of (world stub) aid \<noteq> None))"
  by (simp add: AssetExists_def GetState_def split: option.splits)

lemma InitLedger_cases:
  "InitLedger stub =
    (case fault stub (PutStateCall ''asset1'' (Encoded (init_assets ! 0))) of
       Some msg \<Rightarrow> (Some (PutFailure msg), stub)
     | None \<Rightarrow>
        (case fault stub (PutStateCall ''asset2'' (Encoded (init_assets ! 1))) of
           Some msg \<Rightarrow> (Some (PutFailure msg),
              stub\<lparr>world := AList.update ''asset1'' (Encoded (init_assets ! 0)) (world stub)\<rparr>)
         | None \<Rightarrow> (None,
              stub\<lparr>world := AList.update ''asset2'' (Encoded (init_assets ! 1))
                 (AList.update ''asset1'' (Encoded (init_assets ! 0)) (world stub))\<rparr>)))"
  by (simp add: InitLedger_def init_assets_def json_Marshal_def coerce_asset_def PutState_def
        split: option.splits)

lemmas op_cases = CreateAsset_def UpdateAsset_def DeleteAsset_def TransferAsset_def
  ApproveRequestOne_def ApproveRequestTwo_def marshal_and_put_cases DelState_def
  ReadAsset_cases AssetExists_cases InitLedger_cases init_assets_def error_of_def
  coerce_asset_def

lemma ReadAsset_Inr_iff:
  "ReadAsset stub aid = Inr asset \<longleftrightarrow>
   fault stub (GetStateCall aid) = None \<and>
   (\<exists>stored. map_of (world stub) aid = Some (Encoded stored) \<and> asset = coerce_asset stored)"
  by (auto simp: ReadAsset_cases split: option.splits bytes.splits)

lemma ReadAsset_answered:
  "ReadAsset stub aid = Inr asset \<Longrightarrow> fault stub (GetStateCall aid) = None"
  by (simp add: ReadAsset_Inr_iff)

lemma ReadAsset_coerced: "ReadAsset stub aid = Inr asset \<Longrightarrow> coerce_asset asset = asset"
  by (auto simp: ReadAsset_Inr_iff coerce_asset_idem)

lemma ReadAsset_after_put:
  "fault stub (GetStateCall aid) = None \<Longrightarrow>
   ReadAsset (stub\<lparr>world := AList.update aid (Encoded asset) (world stub)\<rparr>) aid =
     Inr (coerce_asset asset)"
  by (simp add: ReadAsset_cases update_conv')

lemma ReadAsset_absent:
  "fault stub (GetStateCall aid) = None \<Longrightarrow> map_of (world stub) aid = None \<Longrightarrow>
   ReadAsset stub aid = Inl (NotFound aid)"
  by (simp add: ReadAsset_cases)

lemma AssetExists_ok:
  "fault stub (GetStateCall aid) = None \<Longrightarrow>
   AssetExists stub aid = Inr (map_of (world stub) aid \<noteq> None)"
  by (simp add: AssetExists_cases)

subsection \<open>The second approval\<close>

text \<open>
  Claim C1. For an asset that \<open>ReadAsset\<close> finds under \<open>aid\<close>, whatever its
  \<open>ApprovalOne\<close>, \<open>ApproveRequestTwo\<close> returns no error (the write being accepted by the
  platform) and the record then stored under \<open>aid\<close> has \<open>ApprovalTwo = 1\<close> and
  \<open>Registered = 1\<close>, with \<open>ID\<close>, \<open>Description\<close>, \<open>Owner\<close> (and \<open>ApprovalOne\<close>) as before.
\<close>

theorem ApproveRequestTwo_registers:
  assumes "ReadAsset stub aid = Inr asset"
    and "fault stub (PutStateCall aid (Encoded (asset\<lparr>ApprovalTwo := 1, Registered := 1\<rparr>))) = None"
  shows "fst (ApproveRequestTwo stub aid) = None \<and>
         ReadAsset (snd (ApproveRequestTwo stub aid)) aid =
           Inr \<lparr>ID = ID asset, Description = Description asset, Owner = Owner asset,
                ApprovalOne = ApprovalOne asset, ApprovalTwo = 1, Registered = 1\<rparr>"
proof -
  from assms(1) have g: "fault stub (GetStateCall aid) = None"
    by (rule ReadAsset_answered)
  from assms(1) have "coerce_asset asset = asset"
    by (rule ReadAsset_coerced)
  then have v: "coerce_asset (asset\<lparr>ApprovalTwo := 1, Registered := 1\<rparr>) =
      asset\<lparr>ApprovalTwo := 1, Registered := 1\<rparr>"
    by (simp add: coerce_asset_flags)
  have "ApproveRequestTwo stub aid =
      (None, stub\<lparr>world := AList.update aid
         (Encoded (asset\<lparr>ApprovalTwo := 1, Registered := 1\<rparr>)) (world stub)\<rparr>)"
    using assms v by (simp add: ApproveRequestTwo_def marshal_and_put_ok)
  then show ?thesis
    using g v by (simp add: ReadAsset_after_put)
qed

text \<open>An asset that has no first approval is registered by the second approval alone.\<close>

theorem ApproveRequestTwo_registers_witness:
  "ReadAsset (without_faults [(''asset3'', Encoded
       \<lparr>ID = ''asset3'', Description = ''desc'', Owner = ''Org2'',
        ApprovalOne = 0, ApprovalTwo = 0, Registered = 0\<rparr>)]) ''asset3'' =
     Inr \<lparr>ID = ''asset3'', Description = ''desc'', Owner = ''Org2'',
          ApprovalOne = 0, ApprovalTwo = 0, Registered = 0\<rparr> \<and>
   fst (ApproveRequestTwo (without_faults [(''asset3'', Encoded
       \<lparr>ID = ''asset3'', Description = ''desc'', Owner = ''Org2'',
        ApprovalOne = 0, ApprovalTwo = 0, Registered = 0\<rparr>)]) ''asset3'') = None \<and>
   ReadAsset (snd (ApproveRequestTwo (without_faults [(''asset3'', Encoded
       \<lparr>ID = ''asset3'', Description = ''desc'', Owner = ''Org2'',
        ApprovalOne = 0, ApprovalTwo = 0, Registered = 0\<rparr>)]) ''asset3'')) ''asset3'' =
     Inr \<lparr>ID = ''asset3'', Description = ''desc'', Owner = ''Org2'',
          ApprovalOne = 0, ApprovalTwo = 1, Registered = 1\<rparr>"
proof -
  let ?a = "\<lparr>ID = ''asset3'', Description = ''desc'', Owner = ''Org2'',
             ApprovalOne = 0, ApprovalTwo = 0, Registered = 0\<rparr>"
  let ?s = "without_faults [(''asset3'', Encoded ?a)]"
  have h1: "ReadAsset ?s ''asset3'' = Inr ?a"
    by (simp add: ReadAsset_cases coerce_asset_def without_faults_def)
  have h2: "fault ?s (PutStateCall ''asset3''
              (Encoded (?a\<lparr>ApprovalTwo := 1, Registered := 1\<rparr>))) = None"
    by (simp add: without_faults_def)
  from ApproveRequestTwo_registers [OF h1 h2] h1 show ?thesis
    by simp
qed

subsection \<open>Creation\<close>

text \<open>
  Claim C3 says that the record read after a creation has exactly the supplied values.
  The strings pass through \<^verbatim>\<open>json.Marshal\<close> (line 76): created with the description
  \<^verbatim>\<open>d\<close> followed by the byte \<^verbatim>\<open>FF\<close>, which is not UTF-8, \<^verbatim>\<open>asset3\<close> reads back with
  the description \<^verbatim>\<open>d\<close> followed by the bytes \<^verbatim>\<open>EF BF BD\<close>.
\<close>

theorem CreateAsset_then_ReadAsset_counterexample:
  "map_of (world (without_faults [])) ''asset3'' = None \<and>
   fst (CreateAsset (without_faults []) ''asset3'' [CHR ''d'', CHR 0xFF] ''Org2'' 0 0 0) = None \<and>
   ReadAsset (snd (CreateAsset (without_faults []) ''asset3'' [CHR ''d'', CHR 0xFF] ''Org2'' 0 0 0))
       ''asset3'' =
     Inr \<lparr>ID = ''asset3'', Description = [CHR ''d'', CHR 0xEF, CHR 0xBF, CHR 0xBD],
          Owner = ''Org2'', ApprovalOne = 0, ApprovalTwo = 0, Registered = 0\<rparr> \<and>
   [CHR ''d'', CHR 0xEF, CHR 0xBF, CHR 0xBD] \<noteq> [CHR ''d'', CHR 0xFF]"
  by (simp add: without_faults_def op_cases replacement_def accept_lo_def accept_hi_def
        continuation_def)

text \<open>
  Claim C3, amended. When no value is stored under \<open>aid\<close> (and the platform answers the
  read and the write), \<open>CreateAsset\<close> returns no error and \<open>ReadAsset\<close> then returns a
  record whose three flags are exactly the arguments and whose three strings are the
  arguments with every byte that is not part of a well-formed UTF-8 sequence replaced
  by U+FFFD; so all six fields are exactly the arguments when \<open>aid\<close>, \<open>description\<close> and
  \<open>owner\<close> are valid UTF-8.
\<close>

theorem CreateAsset_then_ReadAsset:
  assumes "map_of (world stub) aid = None"
    and "fault stub (GetStateCall aid) = None"
    and "fault stub (PutStateCall aid (Encoded
           \<lparr>ID = coerce_utf8 aid, Description = coerce_utf8 description,
            Owner = coerce_utf8 owner, ApprovalOne = approvalOne,
            ApprovalTwo = approvalTwo, Registered = registered\<rparr>)) = None"
  shows "fst (CreateAsset stub aid description owner approvalOne approvalTwo registered) = None \<and>
         ReadAsset (snd (CreateAsset stub aid description owner approvalOne approvalTwo registered))
             aid =
           Inr \<lparr>ID = coerce_utf8 aid, Description = coerce_utf8 description,
                Owner = coerce_utf8 owner, ApprovalOne = approvalOne,
                ApprovalTwo = approvalTwo, Registered = registered\<rparr> \<and>
         (ValidString aid \<and> ValidString description \<and> ValidString owner \<longrightarrow>
            ReadAsset
                (snd (CreateAsset stub aid description owner approvalOne approvalTwo registered))
                aid =
              Inr \<lparr>ID = aid, Description = description, Owner = owner,
                   ApprovalOne = approvalOne, ApprovalTwo = approvalTwo,
                   Registered = registered\<rparr>)"
proof -
  let ?given = "\<lparr>ID = aid, Description = description, Owner = owner,
                 ApprovalOne = approvalOne, ApprovalTwo = approvalTwo,
                 Registered = registered\<rparr>"
  let ?kept = "\<lparr>ID = coerce_utf8 aid, Description = coerce_utf8 description,
                Owner = coerce_utf8 owner, ApprovalOne = approvalOne,
                ApprovalTwo = approvalTwo, Registered = registered\<rparr>"
  have k: "coerce_asset ?given = ?kept"
    by (simp add: coerce_asset_def)
  have kk: "coerce_asset ?kept = ?kept"
    by (simp add: coerce_asset_def coerce_utf8_idem)
  have c: "CreateAsset stub aid description owner approvalOne approvalTwo registered =
      (None, stub\<lparr>world := AList.update aid (Encoded ?kept) (world stub)\<rparr>)"
    using assms k by (simp add: CreateAsset_def AssetExists_ok marshal_and_put_ok)
  have r: "ReadAsset
      (snd (CreateAsset stub aid description owner approvalOne approvalTwo registered)) aid =
      Inr ?kept"
    using assms(2) c kk by (simp add: ReadAsset_after_put)
  show ?thesis
  proof (intro conjI impI)
    from c show "fst (CreateAsset stub aid description owner approvalOne approvalTwo registered) =
        None"
      by simp
    show "ReadAsset
        (snd (CreateAsset stub aid description owner approvalOne approvalTwo registered)) aid =
        Inr ?kept"
      by (rule r)
    assume "ValidString aid \<and> ValidString description \<and> ValidString owner"
    then have "?kept = ?given"
      by (simp add: coerce_utf8_valid)
    with r show "ReadAsset
        (snd (CreateAsset stub aid description owner approvalOne approvalTwo registered)) aid =
        Inr ?given"
      by simp
  qed
qed

text \<open>A description with a two-byte sequence (\<^verbatim>\<open>C3 A9\<close>) is valid and read back as it is.\<close>

theorem CreateAsset_then_ReadAsset_witness:
  "map_of (world (without_faults [])) ''asset3'' = None \<and>
   ValidString ''asset3'' \<and> ValidString [CHR ''d'', CHR 0xC3, CHR 0xA9] \<and> ValidString ''Org2'' \<and>
   fst (CreateAsset (without_faults []) ''asset3'' [CHR ''d'', CHR 0xC3, CHR 0xA9] ''Org2'' 0 0 0) =
     None \<and>
   ReadAsset
       (snd (CreateAsset (without_faults []) ''asset3'' [CHR ''d'', CHR 0xC3, CHR 0xA9] ''Org2''
          0 0 0))
       ''asset3'' =
     Inr \<lparr>ID = ''asset3'', Description = [CHR ''d'', CHR 0xC3, CHR 0xA9], Owner = ''Org2'',
          ApprovalOne = 0, ApprovalTwo = 0, Registered = 0\<rparr>"
proof -
  let ?s = "without_faults []"
  let ?d = "[CHR ''d'', CHR 0xC3, CHR 0xA9]"
  have h1: "map_of (world ?s) ''asset3'' = None"
    by (simp add: without_faults_def)
  have h2: "fault ?s (GetStateCall ''asset3'') = None"
    by (simp add: without_faults_def)
  have h3: "fault ?s (PutStateCall ''asset3'' (Encoded
      \<lparr>ID = coerce_utf8 ''asset3'', Description = coerce_utf8 ?d, Owner = coerce_utf8 ''Org2'',
       ApprovalOne = 0, ApprovalTwo = 0, Registered = 0\<rparr>)) = None"
    by (simp add: without_faults_def)
  have v: "ValidString ''asset3'' \<and> ValidString ?d \<and> ValidString ''Org2''"
    by (simp add: continuation_def)
  from CreateAsset_then_ReadAsset [OF h1 h2 h3] h1 v show ?thesis
    by blast
qed

text \<open>
  Claim C4. When a value is stored under \<open>aid\<close> (and the platform answers the read),
  \<open>CreateAsset\<close> returns the error "already exists" and the stub, hence every stored
  record, is as before the call.
\<close>

theorem CreateAsset_existing:
  assumes "map_of (world stub) aid = Some v"
    and "fault stub (GetStateCall aid) = None"
  shows "CreateAsset stub aid description owner approvalOne approvalTwo registered =
           (Some (AlreadyExists aid), stub)"
  using assms by (simp add: CreateAsset_def AssetExists_ok)

text \<open>Creating \<^verbatim>\<open>asset3\<close> twice: the second call fails and changes nothing.\<close>

theorem CreateAsset_existing_witness:
  "map_of (world (snd (CreateAsset (without_faults []) ''asset3'' ''desc'' ''Org2'' 0 0 0)))
       ''asset3'' =
     Some (Encoded \<lparr>ID = ''asset3'', Description = ''desc'', Owner = ''Org2'',
        ApprovalOne = 0, ApprovalTwo = 0, Registered = 0\<rparr>) \<and>
   CreateAsset (snd (CreateAsset (without_faults []) ''asset3'' ''desc'' ''Org2'' 0 0 0))
       ''asset3'' ''other'' ''Org1'' 1 1 1 =
     (Some (AlreadyExists ''asset3''),
      snd (CreateAsset (without_faults []) ''asset3'' ''desc'' ''Org2'' 0 0 0))"
proof -
  let ?s = "snd (CreateAsset (without_faults []) ''asset3'' ''desc'' ''Org2'' 0 0 0)"
  have h1: "map_of (world ?s) ''asset3'' = Some (Encoded \<lparr>ID = ''asset3'', Description = ''desc'', Owner = ''Org2'',
        ApprovalOne = 0, ApprovalTwo = 0, Registered = 0\<rparr>)"
    by (simp add: without_faults_def op_cases)
  have h2: "fault ?s (GetStateCall ''asset3'') = None"
    by (simp add: without_faults_def op_cases)
  from CreateAsset_existing [OF h1 h2] h1 show ?thesis
    by simp
qed

subsection \<open>Absent keys\<close>

text \<open>
  Claim C5. When no value is stored under \<open>aid\<close> (and the platform answers the read),
  \<open>ReadAsset\<close>, \<open>UpdateAsset\<close>, \<open>DeleteAsset\<close>, \<open>TransferAsset\<close>, \<open>ApproveRequestOne\<close> and
  \<open>ApproveRequestTwo\<close> all return the error "does not exist" and \<open>AssetExists\<close> returns
  false; after a successful \<open>CreateAsset\<close> it returns true, after a successful
  \<open>DeleteAsset\<close> false again; and on no stub and no key does \<open>AssetExists\<close> return the
  error "does not exist".
\<close>

theorem absent_id_NotFound:
  assumes "map_of (world stub) aid = None"
    and "fault stub (GetStateCall aid) = None"
  shows "ReadAsset stub aid = Inl (NotFound aid) \<and>
         UpdateAsset stub aid description owner approvalOne approvalTwo registered =
           (Some (NotFound aid), stub) \<and>
         DeleteAsset stub aid = (Some (NotFound aid), stub) \<and>
         TransferAsset stub aid newOwner = (Some (NotFound aid), stub) \<and>
         ApproveRequestOne stub aid = (Some (NotFound aid), stub) \<and>
         ApproveRequestTwo stub aid = (Some (NotFound aid), stub) \<and>
         AssetExists stub aid = Inr False \<and>
         (fst (CreateAsset stub aid description owner approvalOne approvalTwo registered) = None \<longrightarrow>
            AssetExists
              (snd (CreateAsset stub aid description owner approvalOne approvalTwo registered)) aid =
              Inr True \<and>
            (fst (DeleteAsset
                (snd (CreateAsset stub aid description owner approvalOne approvalTwo registered))
                aid) = None \<longrightarrow>
             AssetExists
               (snd (DeleteAsset
                 (snd (CreateAsset stub aid description owner approvalOne approvalTwo registered))
                 aid)) aid =
               Inr False)) \<and>
         AssetExists stub' k \<noteq> Inl (NotFound k')"
proof -
  have r: "ReadAsset stub aid = Inl (NotFound aid)"
    using assms by (simp add: ReadAsset_absent)
  have e: "AssetExists stub aid = Inr False"
    using assms by (simp add: AssetExists_ok)
  have n: "AssetExists stub' k \<noteq> Inl (NotFound k')"
    by (simp add: AssetExists_cases split: option.splits)
  have c: "fst (CreateAsset stub aid description owner approvalOne approvalTwo registered) = None \<longrightarrow>
            AssetExists
              (snd (CreateAsset stub aid description owner approvalOne approvalTwo registered)) aid =
              Inr True \<and>
            (fst (DeleteAsset
                (snd (CreateAsset stub aid description owner approvalOne approvalTwo registered))
                aid) = None \<longrightarrow>
             AssetExists
               (snd (DeleteAsset
                 (snd (CreateAsset stub aid description owner approvalOne approvalTwo registered))
                 aid)) aid =
               Inr False)"
    using assms
    by (auto simp: CreateAsset_def DeleteAsset_def AssetExists_ok marshal_and_put_cases
          DelState_def update_conv' delete_conv' split: option.splits)
  have u: "UpdateAsset stub aid description owner approvalOne approvalTwo registered =
           (Some (NotFound aid), stub)"
    using e by (simp add: UpdateAsset_def)
  have d: "DeleteAsset stub aid = (Some (NotFound aid), stub)"
    using e by (simp add: DeleteAsset_def)
  have t: "TransferAsset stub aid newOwner = (Some (NotFound aid), stub)"
    using r by (simp add: TransferAsset_def)
  have a1: "ApproveRequestOne stub aid = (Some (NotFound aid), stub)"
    using r by (simp add: ApproveRequestOne_def)
  have a2: "ApproveRequestTwo stub aid = (Some (NotFound aid), stub)"
    using r by (simp add: ApproveRequestTwo_def)
  from r u d t a1 a2 e c n show ?thesis
    by (intro conjI)
qed

theorem absent_id_NotFound_witness:
  "map_of (world (without_faults [])) ''asset3'' = None \<and>
   fst (CreateAsset (without_faults []) ''asset3'' ''desc'' ''Org2'' 0 0 0) = None \<and>
   fst (DeleteAsset (snd (CreateAsset (without_faults []) ''asset3'' ''desc'' ''Org2'' 0 0 0))
          ''asset3'') = None \<and>
   ReadAsset (without_faults []) ''asset3'' = Inl (NotFound ''asset3'') \<and>
   UpdateAsset (without_faults []) ''asset3'' ''desc'' ''Org2'' 0 0 0 =
     (Some (NotFound ''asset3''), without_faults []) \<and>
   DeleteAsset (without_faults []) ''asset3'' = (Some (NotFound ''asset3''), without_faults []) \<and>
   TransferAsset (without_faults []) ''asset3'' ''Org1'' =
     (Some (NotFound ''asset3''), without_faults []) \<and>
   ApproveRequestOne (without_faults []) ''asset3'' =
     (Some (NotFound ''asset3''), without_faults []) \<and>
   ApproveRequestTwo (without_faults []) ''asset3'' =
     (Some (NotFound ''asset3''), without_faults []) \<and>
   AssetExists (without_faults []) ''asset3'' = Inr False \<and>
   AssetExists (snd (CreateAsset (without_faults []) ''asset3'' ''desc'' ''Org2'' 0 0 0))
     ''asset3'' = Inr True \<and>
   AssetExists
     (snd (DeleteAsset (snd (CreateAsset (without_faults []) ''asset3'' ''desc'' ''Org2'' 0 0 0))
        ''asset3'')) ''asset3'' = Inr False"
proof -
  let ?s = "without_faults []"
  have h1: "map_of (world ?s) ''asset3'' = None"
    by (simp add: without_faults_def)
  have h2: "fault ?s (GetStateCall ''asset3'') = None"
    by (simp add: without_faults_def)
  have h3: "fst (CreateAsset ?s ''asset3'' ''desc'' ''Org2'' 0 0 0) = None"
    by (simp add: without_faults_def op_cases)
  have h4: "fst (DeleteAsset (snd (CreateAsset ?s ''asset3'' ''desc'' ''Org2'' 0 0 0))
              ''asset3'') = None"
    by (simp add: without_faults_def op_cases)
  from absent_id_NotFound [OF h1 h2, of "''desc''" "''Org2''" 0 0 0 "''Org1''" ?s
      "''asset3''" "''asset3''"] h1 h3 h4
  show ?thesis
    by simp
qed

subsection \<open>Transfer and the first approval\<close>

text \<open>
  Claim C6 says that \<open>Owner\<close> becomes \<open>newOwner\<close> for every string. The record passes
  through \<^verbatim>\<open>json.Marshal\<close> (line 164): transferred to the owner made of the single byte
  \<^verbatim>\<open>C3\<close>, a lead byte with nothing after it, \<^verbatim>\<open>asset3\<close> reads back with the owner
  \<^verbatim>\<open>EF BF BD\<close>.
\<close>

theorem TransferAsset_changes_only_Owner_counterexample:
  "ReadAsset (without_faults [(''asset3'', Encoded \<lparr>ID = ''asset3'', Description = ''desc'', Owner = ''Org2'',
        ApprovalOne = 0, ApprovalTwo = 0, Registered = 0\<rparr>)]) ''asset3'' = Inr \<lparr>ID = ''asset3'', Description = ''desc'', Owner = ''Org2'',
        ApprovalOne = 0, ApprovalTwo = 0, Registered = 0\<rparr> \<and>
   fst (TransferAsset (without_faults [(''asset3'', Encoded \<lparr>ID = ''asset3'', Description = ''desc'', Owner = ''Org2'',
        ApprovalOne = 0, ApprovalTwo = 0, Registered = 0\<rparr>)]) ''asset3'' [CHR 0xC3]) = None \<and>
   ReadAsset (snd (TransferAsset (without_faults [(''asset3'', Encoded \<lparr>ID = ''asset3'', Description = ''desc'', Owner = ''Org2'',
        ApprovalOne = 0, ApprovalTwo = 0, Registered = 0\<rparr>)]) ''asset3'' [CHR 0xC3]))
       ''asset3'' =
     Inr \<lparr>ID = ''asset3'', Description = ''desc'', Owner = [CHR 0xEF, CHR 0xBF, CHR 0xBD],
          ApprovalOne = 0, ApprovalTwo = 0, Registered = 0\<rparr> \<and>
   [CHR 0xEF, CHR 0xBF, CHR 0xBD] \<noteq> [CHR 0xC3]"
  by (simp add: without_faults_def op_cases replacement_def accept_lo_def accept_hi_def
        continuation_def)

text \<open>
  Claim C6, amended. For an asset that \<open>ReadAsset\<close> finds under \<open>aid\<close> and any
  \<open>newOwner\<close>, \<open>TransferAsset\<close> returns no error (the write being accepted by the
  platform) and the record then stored under \<open>aid\<close> has the other five fields as before
  the call and, as \<open>Owner\<close>, \<open>newOwner\<close> with every byte that is not part of a
  well-formed UTF-8 sequence replaced by U+FFFD; so \<open>Owner = newOwner\<close> when \<open>newOwner\<close>
  is valid UTF-8.
\<close>

theorem TransferAsset_changes_only_Owner:
  assumes "ReadAsset stub aid = Inr asset"
    and "fault stub (PutStateCall aid (Encoded (asset\<lparr>Owner := coerce_utf8 newOwner\<rparr>))) = None"
  shows "fst (TransferAsset stub aid newOwner) = None \<and>
         ReadAsset (snd (TransferAsset stub aid newOwner)) aid =
           Inr \<lparr>ID = ID asset, Description = Description asset, Owner = coerce_utf8 newOwner,
                ApprovalOne = ApprovalOne asset, ApprovalTwo = ApprovalTwo asset,
                Registered = Registered asset\<rparr> \<and>
         (ValidString newOwner \<longrightarrow>
            ReadAsset (snd (TransferAsset stub aid newOwner)) aid =
              Inr \<lparr>ID = ID asset, Description = Description asset, Owner = newOwner,
                   ApprovalOne = ApprovalOne asset, ApprovalTwo = ApprovalTwo asset,
                   Registered = Registered asset\<rparr>)"
proof -
  from assms(1) have g: "fault stub (GetStateCall aid) = None"
    by (rule ReadAsset_answered)
  from assms(1) have f: "coerce_asset asset = asset"
    by (rule ReadAsset_coerced)
  then have v: "coerce_asset (asset\<lparr>Owner := newOwner\<rparr>) = asset\<lparr>Owner := coerce_utf8 newOwner\<rparr>"
    by (rule coerce_asset_Owner)
  from f have vv: "coerce_asset (asset\<lparr>Owner := coerce_utf8 newOwner\<rparr>) =
      asset\<lparr>Owner := coerce_utf8 newOwner\<rparr>"
    by (simp add: coerce_asset_Owner coerce_utf8_idem)
  have t: "TransferAsset stub aid newOwner =
      (None, stub\<lparr>world := AList.update aid
         (Encoded (asset\<lparr>Owner := coerce_utf8 newOwner\<rparr>)) (world stub)\<rparr>)"
    using assms v by (simp add: TransferAsset_def marshal_and_put_ok)
  have r: "ReadAsset (snd (TransferAsset stub aid newOwner)) aid =
           Inr \<lparr>ID = ID asset, Description = Description asset, Owner = coerce_utf8 newOwner,
                ApprovalOne = ApprovalOne asset, ApprovalTwo = ApprovalTwo asset,
                Registered = Registered asset\<rparr>"
    using g t vv by (simp add: ReadAsset_after_put)
  show ?thesis
  proof (intro conjI impI)
    from t show "fst (TransferAsset stub aid newOwner) = None"
      by simp
    show "ReadAsset (snd (TransferAsset stub aid newOwner)) aid =
           Inr \<lparr>ID = ID asset, Description = Description asset, Owner = coerce_utf8 newOwner,
                ApprovalOne = ApprovalOne asset, ApprovalTwo = ApprovalTwo asset,
                Registered = Registered asset\<rparr>"
      by (rule r)
    assume "ValidString newOwner"
    then have "coerce_utf8 newOwner = newOwner"
      by (rule coerce_utf8_valid)
    with r show "ReadAsset (snd (TransferAsset stub aid newOwner)) aid =
           Inr \<lparr>ID = ID asset, Description = Description asset, Owner = newOwner,
                ApprovalOne = ApprovalOne asset, ApprovalTwo = ApprovalTwo asset,
                Registered = Registered asset\<rparr>"
      by simp
  qed
qed

theorem TransferAsset_changes_only_Owner_witness:
  "ReadAsset (without_faults [(''asset3'', Encoded \<lparr>ID = ''asset3'', Description = ''desc'', Owner = ''Org2'',
        ApprovalOne = 0, ApprovalTwo = 0, Registered = 0\<rparr>)]) ''asset3'' = Inr \<lparr>ID = ''asset3'', Description = ''desc'', Owner = ''Org2'',
        ApprovalOne = 0, ApprovalTwo = 0, Registered = 0\<rparr> \<and>
   ValidString ''Org1'' \<and>
   fst (TransferAsset (without_faults [(''asset3'', Encoded \<lparr>ID = ''asset3'', Description = ''desc'', Owner = ''Org2'',
        ApprovalOne = 0, ApprovalTwo = 0, Registered = 0\<rparr>)]) ''asset3'' ''Org1'') = None \<and>
   ReadAsset (snd (TransferAsset (without_faults [(''asset3'', Encoded \<lparr>ID = ''asset3'', Description = ''desc'', Owner = ''Org2'',
        ApprovalOne = 0, ApprovalTwo = 0, Registered = 0\<rparr>)]) ''asset3'' ''Org1''))
       ''asset3'' =
     Inr \<lparr>ID = ''asset3'', Description = ''desc'', Owner = ''Org1'',
          ApprovalOne = 0, ApprovalTwo = 0, Registered = 0\<rparr>"
proof -
  let ?s = "without_faults [(''asset3'', Encoded \<lparr>ID = ''asset3'', Description = ''desc'', Owner = ''Org2'',
        ApprovalOne = 0, ApprovalTwo = 0, Registered = 0\<rparr>)]"
  have h1: "ReadAsset ?s ''asset3'' = Inr \<lparr>ID = ''asset3'', Description = ''desc'', Owner = ''Org2'',
        ApprovalOne = 0, ApprovalTwo = 0, Registered = 0\<rparr>"
    by (simp add: ReadAsset_cases coerce_asset_def without_faults_def)
  have h2: "fault ?s (PutStateCall ''asset3'' (Encoded (\<lparr>ID = ''asset3'', Description = ''desc'', Owner = ''Org2'',
        ApprovalOne = 0, ApprovalTwo = 0, Registered = 0\<rparr>\<lparr>Owner := coerce_utf8 ''Org1''\<rparr>))) = None"
    by (simp add: without_faults_def)
  have v: "ValidString ''Org1''"
    by simp
  from TransferAsset_changes_only_Owner [OF h1 h2] h1 v show ?thesis
    by simp
qed

text \<open>
  Claim C7. For an asset that \<open>ReadAsset\<close> finds under \<open>aid\<close>, \<open>ApproveRequestOne\<close> returns
  no error (the write being accepted by the platform) and the record then stored has
  \<open>ApprovalOne = 1\<close> and the other five fields as before. On every stub and key, a
  second call returns what the first returned, error and stub alike.
\<close>

theorem ApproveRequestOne_idempotent:
  "(ReadAsset stub aid = Inr asset \<and>
    fault stub (PutStateCall aid (Encoded (asset\<lparr>ApprovalOne := 1\<rparr>))) = None \<longrightarrow>
      fst (ApproveRequestOne stub aid) = None \<and>
      ReadAsset (snd (ApproveRequestOne stub aid)) aid =
        Inr \<lparr>ID = ID asset, Description = Description asset, Owner = Owner asset,
             ApprovalOne = 1, ApprovalTwo = ApprovalTwo asset,
             Registered = Registered asset\<rparr>) \<and>
   ApproveRequestOne (snd (ApproveRequestOne stub aid)) aid = ApproveRequestOne stub aid"
proof (intro conjI impI)
  assume a: "ReadAsset stub aid = Inr asset \<and>
    fault stub (PutStateCall aid (Encoded (asset\<lparr>ApprovalOne := 1\<rparr>))) = None"
  then have g: "fault stub (GetStateCall aid) = None"
    using ReadAsset_answered by blast
  from a have "coerce_asset asset = asset"
    using ReadAsset_coerced by blast
  then have v: "coerce_asset (asset\<lparr>ApprovalOne := 1\<rparr>) = asset\<lparr>ApprovalOne := 1\<rparr>"
    by (simp add: coerce_asset_flags)
  have r: "ApproveRequestOne stub aid =
      (None, stub\<lparr>world := AList.update aid (Encoded (asset\<lparr>ApprovalOne := 1\<rparr>)) (world stub)\<rparr>)"
    using a v by (simp add: ApproveRequestOne_def marshal_and_put_ok)
  from r show "fst (ApproveRequestOne stub aid) = None"
    by simp
  from r g v show "ReadAsset (snd (ApproveRequestOne stub aid)) aid =
        Inr \<lparr>ID = ID asset, Description = Description asset, Owner = Owner asset,
             ApprovalOne = 1, ApprovalTwo = ApprovalTwo asset,
             Registered = Registered asset\<rparr>"
    by (simp add: ReadAsset_after_put)
next
  show "ApproveRequestOne (snd (ApproveRequestOne stub aid)) aid = ApproveRequestOne stub aid"
  proof (cases "ReadAsset stub aid")
    case (Inl err)
    then show ?thesis
      by (simp add: ApproveRequestOne_def)
  next
    case (Inr found)
    then have g: "fault stub (GetStateCall aid) = None"
      by (rule ReadAsset_answered)
    from Inr have "coerce_asset found = found"
      by (rule ReadAsset_coerced)
    then have v: "coerce_asset (found\<lparr>ApprovalOne := 1\<rparr>) = found\<lparr>ApprovalOne := 1\<rparr>"
      by (simp add: coerce_asset_flags)
    show ?thesis
    proof (cases "fault stub (PutStateCall aid (Encoded (found\<lparr>ApprovalOne := 1\<rparr>)))")
      case None
      with Inr g v show ?thesis
        by (simp add: ApproveRequestOne_def marshal_and_put_ok ReadAsset_after_put)
    next
      case (Some msg)
      with Inr v show ?thesis
        by (simp add: ApproveRequestOne_def marshal_and_put_fails)
    qed
  qed
qed

theorem ApproveRequestOne_idempotent_witness:
  "ReadAsset (without_faults [(''asset3'', Encoded \<lparr>ID = ''asset3'', Description = ''desc'', Owner = ''Org2'',
        ApprovalOne = 0, ApprovalTwo = 0, Registered = 0\<rparr>)]) ''asset3'' = Inr \<lparr>ID = ''asset3'', Description = ''desc'', Owner = ''Org2'',
        ApprovalOne = 0, ApprovalTwo = 0, Registered = 0\<rparr> \<and>
   fst (ApproveRequestOne (without_faults [(''asset3'', Encoded \<lparr>ID = ''asset3'', Description = ''desc'', Owner = ''Org2'',
        ApprovalOne = 0, ApprovalTwo = 0, Registered = 0\<rparr>)]) ''asset3'') = None \<and>
   ReadAsset (snd (ApproveRequestOne (without_faults [(''asset3'', Encoded \<lparr>ID = ''asset3'', Description = ''desc'', Owner = ''Org2'',
        ApprovalOne = 0, ApprovalTwo = 0, Registered = 0\<rparr>)]) ''asset3''))
       ''asset3'' =
     Inr \<lparr>ID = ''asset3'', Description = ''desc'', Owner = ''Org2'',
          ApprovalOne = 1, ApprovalTwo = 0, Registered = 0\<rparr> \<and>
   ApproveRequestOne
       (snd (ApproveRequestOne (without_faults [(''asset3'', Encoded \<lparr>ID = ''asset3'', Description = ''desc'', Owner = ''Org2'',
        ApprovalOne = 0, ApprovalTwo = 0, Registered = 0\<rparr>)]) ''asset3''))
       ''asset3'' =
     ApproveRequestOne (without_faults [(''asset3'', Encoded \<lparr>ID = ''asset3'', Description = ''desc'', Owner = ''Org2'',
        ApprovalOne = 0, ApprovalTwo = 0, Registered = 0\<rparr>)]) ''asset3''"
proof -
  let ?s = "without_faults [(''asset3'', Encoded \<lparr>ID = ''asset3'', Description = ''desc'', Owner = ''Org2'',
        ApprovalOne = 0, ApprovalTwo = 0, Registered = 0\<rparr>)]"
  have h1: "ReadAsset ?s ''asset3'' = Inr \<lparr>ID = ''asset3'', Description = ''desc'', Owner = ''Org2'',
        ApprovalOne = 0, ApprovalTwo = 0, Registered = 0\<rparr>"
    by (simp add: ReadAsset_cases coerce_asset_def without_faults_def)
  have h2: "fault ?s (PutStateCall ''asset3'' (Encoded (\<lparr>ID = ''asset3'', Description = ''desc'', Owner = ''Org2'',
        ApprovalOne = 0, ApprovalTwo = 0, Registered = 0\<rparr>\<lparr>ApprovalOne := 1\<rparr>))) = None"
    by (simp add: without_faults_def)
  from ApproveRequestOne_idempotent [of ?s "''asset3''" "\<lparr>ID = ''asset3'', Description = ''desc'', Owner = ''Org2'',
        ApprovalOne = 0, ApprovalTwo = 0, Registered = 0\<rparr>"] h1 h2
  show ?thesis
    by simp
qed

subsection \<open>Enumeration\<close>

text \<open>
  The entries of a scan of the whole key space: sorted by key, one per key, and the
  same map from keys to values as the world state.
\<close>

lemma range_entries_all:
  "sorted (map fst (range_entries stub [] [])) \<and>
   distinct (map fst (range_entries stub [] [])) \<and>
   map_of (range_entries stub [] []) = map_of (world stub)"
proof -
  have e: "range_entries stub [] [] = sort_key fst (AList.clearjunk (world stub))"
    by (simp add: range_entries_def)
  have d: "distinct (map fst (sort_key fst (AList.clearjunk (world stub))))"
    by (metis distinct_clearjunk distinct_map distinct_sort set_sort)
  have "map_of (sort_key fst (AList.clearjunk (world stub))) =
        map_of (AList.clearjunk (world stub))"
    using d distinct_clearjunk [of "world stub"] by (simp add: map_of_inject_set)
  with d e show ?thesis
    by (simp add: map_of_clearjunk sorted_sort_key)
qed

lemma GetAllAssets_loop_all_decode:
  assumes "\<forall>i. fault stub (NextCall i) = None"
    and "\<forall>kv \<in> set entries. \<exists>asset. json_Unmarshal (snd kv) = Inr asset"
  shows "GetAllAssets_loop stub i entries results =
     Inr (results @
          map (\<lambda>kv. \<lparr>Key = fst kv, Record = projr (json_Unmarshal (snd kv))\<rparr>) entries)"
  using assms(2)
proof (induction entries arbitrary: i results)
  case Nil
  then show ?case by simp
next
  case (Cons kv entries)
  then obtain asset where "json_Unmarshal (snd kv) = Inr asset"
    by auto
  with Cons assms(1) show ?case
    by simp
qed

lemma GetAllAssets_loop_first_malformed:
  assumes "\<forall>i. fault stub (NextCall i) = None"
    and "\<forall>kv \<in> set pre. \<exists>asset. json_Unmarshal (snd kv) = Inr asset"
  shows "GetAllAssets_loop stub i (pre @ (k, Malformed raw) # post) results =
           Inl (DecodeFailure raw)"
  using assms(2)
proof (induction pre arbitrary: i results)
  case Nil
  with assms(1) show ?case
    by (simp add: json_Unmarshal_def)
next
  case (Cons kv pre)
  then obtain asset where "json_Unmarshal (snd kv) = Inr asset"
    by auto
  with Cons assms(1) show ?case
    by simp
qed

text \<open>
  Claim C8. On a stub whose world state is empty, when \<open>InitLedger\<close> returns no error
  (and the platform answers the scan), \<open>GetAllAssets\<close> returns exactly two entries, the
  one with key \<^verbatim>\<open>asset1\<close> before the one with key \<^verbatim>\<open>asset2\<close>, holding the two fixed
  records with the three flags at 0.
\<close>

theorem InitLedger_then_GetAllAssets:
  assumes "world stub = []"
    and "fst (InitLedger stub) = None"
    and "fault stub (GetStateByRangeCall [] []) = None"
    and "fault stub (NextCall 0) = None"
    and "fault stub (NextCall 1) = None"
  shows "GetAllAssets (snd (InitLedger stub)) =
    Inr [\<lparr>Key = ''asset1'',
           Record = \<lparr>ID = ''asset1'', Description = ''myAsset'', Owner = ''Org1'',
                     ApprovalOne = 0, ApprovalTwo = 0, Registered = 0\<rparr>\<rparr>,
         \<lparr>Key = ''asset2'',
           Record = \<lparr>ID = ''asset2'', Description = ''anotherAsset'', Owner = ''Org1'',
                     ApprovalOne = 0, ApprovalTwo = 0, Registered = 0\<rparr>\<rparr>]"
proof -
  from assms(2) have "InitLedger stub = (None,
              stub\<lparr>world := AList.update ''asset2'' (Encoded (init_assets ! 1))
                 (AList.update ''asset1'' (Encoded (init_assets ! 0)) (world stub))\<rparr>)"
    by (simp add: InitLedger_cases split: option.splits)
  with assms(1,3,4,5) show ?thesis
    by (simp add: init_assets_def GetAllAssets_def GetStateByRange_def range_entries_def
          json_Unmarshal_def coerce_asset_def)
qed

theorem InitLedger_then_GetAllAssets_witness:
  "world (without_faults []) = [] \<and>
   fst (InitLedger (without_faults [])) = None \<and>
   GetAllAssets (snd (InitLedger (without_faults []))) =
    Inr [\<lparr>Key = ''asset1'',
           Record = \<lparr>ID = ''asset1'', Description = ''myAsset'', Owner = ''Org1'',
                     ApprovalOne = 0, ApprovalTwo = 0, Registered = 0\<rparr>\<rparr>,
         \<lparr>Key = ''asset2'',
           Record = \<lparr>ID = ''asset2'', Description = ''anotherAsset'', Owner = ''Org1'',
                     ApprovalOne = 0, ApprovalTwo = 0, Registered = 0\<rparr>\<rparr>]"
proof -
  let ?s = "without_faults []"
  have h1: "world ?s = []"
    by (simp add: without_faults_def)
  have h2: "fst (InitLedger ?s) = None"
    by (simp add: without_faults_def InitLedger_cases)
  have h3: "fault ?s (GetStateByRangeCall [] []) = None"
    by (simp add: without_faults_def)
  have h4: "fault ?s (NextCall 0) = None"
    by (simp add: without_faults_def)
  have h5: "fault ?s (NextCall 1) = None"
    by (simp add: without_faults_def)
  from InitLedger_then_GetAllAssets [OF h1 h2 h3 h4 h5] h1 h2 show ?thesis
    by simp
qed

text \<open>
  Claim C9. On every stub (the platform answering the scan): if an entry of the scan is
  malformed and every entry before it decodes, \<open>GetAllAssets\<close> returns the decode error
  of that entry and no list; if every entry decodes, it returns the list of the
  entries' keys and decoded records, in the order of the scan.
\<close>

theorem GetAllAssets_all_or_nothing:
  assumes "fault stub (GetStateByRangeCall [] []) = None"
    and "\<forall>i. fault stub (NextCall i) = None"
  shows "(range_entries stub [] [] = pre @ (k, Malformed raw) # post \<and>
          (\<forall>kv \<in> set pre. \<exists>asset. json_Unmarshal (snd kv) = Inr asset) \<longrightarrow>
            GetAllAssets stub = Inl (DecodeFailure raw)) \<and>
         ((\<forall>kv \<in> set (range_entries stub [] []). \<exists>asset. json_Unmarshal (snd kv) = Inr asset) \<longrightarrow>
            GetAllAssets stub =
              Inr (map (\<lambda>kv. \<lparr>Key = fst kv, Record = projr (json_Unmarshal (snd kv))\<rparr>)
                     (range_entries stub [] [])))"
  using assms
  by (auto simp: GetAllAssets_def GetStateByRange_def GetAllAssets_loop_all_decode
        GetAllAssets_loop_first_malformed)

text \<open>
  Two world states, written out of key order: one with a malformed value under the
  second key, one where every value decodes.
\<close>

theorem GetAllAssets_all_or_nothing_witness:
  "range_entries (without_faults
       [(''asset2'', Malformed ''{''), (''asset3'', Encoded \<lparr>ID = ''asset3'', Description = ''desc'', Owner = ''Org2'',
        ApprovalOne = 0, ApprovalTwo = 0, Registered = 0\<rparr>), (''asset1'', Encoded \<lparr>ID = ''asset1'', Description = ''myAsset'', Owner = ''Org1'',
        ApprovalOne = 0, ApprovalTwo = 0, Registered = 0\<rparr>)]) [] [] =
     [(''asset1'', Encoded \<lparr>ID = ''asset1'', Description = ''myAsset'', Owner = ''Org1'',
        ApprovalOne = 0, ApprovalTwo = 0, Registered = 0\<rparr>)] @ (''asset2'', Malformed ''{'') # [(''asset3'', Encoded \<lparr>ID = ''asset3'', Description = ''desc'', Owner = ''Org2'',
        ApprovalOne = 0, ApprovalTwo = 0, Registered = 0\<rparr>)] \<and>
   GetAllAssets (without_faults
       [(''asset2'', Malformed ''{''), (''asset3'', Encoded \<lparr>ID = ''asset3'', Description = ''desc'', Owner = ''Org2'',
        ApprovalOne = 0, ApprovalTwo = 0, Registered = 0\<rparr>), (''asset1'', Encoded \<lparr>ID = ''asset1'', Description = ''myAsset'', Owner = ''Org1'',
        ApprovalOne = 0, ApprovalTwo = 0, Registered = 0\<rparr>)]) =
     Inl (DecodeFailure ''{'') \<and>
   range_entries (without_faults [(''asset2'', Encoded \<lparr>ID = ''asset2'', Description = ''anotherAsset'', Owner = ''Org1'',
        ApprovalOne = 0, ApprovalTwo = 0, Registered = 0\<rparr>), (''asset1'', Encoded \<lparr>ID = ''asset1'', Description = ''myAsset'', Owner = ''Org1'',
        ApprovalOne = 0, ApprovalTwo = 0, Registered = 0\<rparr>)]) [] [] =
     [(''asset1'', Encoded \<lparr>ID = ''asset1'', Description = ''myAsset'', Owner = ''Org1'',
        ApprovalOne = 0, ApprovalTwo = 0, Registered = 0\<rparr>), (''asset2'', Encoded \<lparr>ID = ''asset2'', Description = ''anotherAsset'', Owner = ''Org1'',
        ApprovalOne = 0, ApprovalTwo = 0, Registered = 0\<rparr>)] \<and>
   GetAllAssets (without_faults [(''asset2'', Encoded \<lparr>ID = ''asset2'', Description = ''anotherAsset'', Owner = ''Org1'',
        ApprovalOne = 0, ApprovalTwo = 0, Registered = 0\<rparr>), (''asset1'', Encoded \<lparr>ID = ''asset1'', Description = ''myAsset'', Owner = ''Org1'',
        ApprovalOne = 0, ApprovalTwo = 0, Registered = 0\<rparr>)]) =
     Inr [\<lparr>Key = ''asset1'', Record = \<lparr>ID = ''asset1'', Description = ''myAsset'', Owner = ''Org1'',
        ApprovalOne = 0, ApprovalTwo = 0, Registered = 0\<rparr>\<rparr>, \<lparr>Key = ''asset2'', Record = \<lparr>ID = ''asset2'', Description = ''anotherAsset'', Owner = ''Org1'',
        ApprovalOne = 0, ApprovalTwo = 0, Registered = 0\<rparr>\<rparr>]"
proof -
  let ?s = "without_faults
       [(''asset2'', Malformed ''{''), (''asset3'', Encoded \<lparr>ID = ''asset3'', Description = ''desc'', Owner = ''Org2'',
        ApprovalOne = 0, ApprovalTwo = 0, Registered = 0\<rparr>), (''asset1'', Encoded \<lparr>ID = ''asset1'', Description = ''myAsset'', Owner = ''Org1'',
        ApprovalOne = 0, ApprovalTwo = 0, Registered = 0\<rparr>)]"
  let ?t = "without_faults [(''asset2'', Encoded \<lparr>ID = ''asset2'', Description = ''anotherAsset'', Owner = ''Org1'',
        ApprovalOne = 0, ApprovalTwo = 0, Registered = 0\<rparr>), (''asset1'', Encoded \<lparr>ID = ''asset1'', Description = ''myAsset'', Owner = ''Org1'',
        ApprovalOne = 0, ApprovalTwo = 0, Registered = 0\<rparr>)]"
  have s1: "fault ?s (GetStateByRangeCall [] []) = None"
    by (simp add: without_faults_def)
  have s2: "\<forall>i. fault ?s (NextCall i) = None"
    by (simp add: without_faults_def)
  have s3: "range_entries ?s [] [] =
     [(''asset1'', Encoded \<lparr>ID = ''asset1'', Description = ''myAsset'', Owner = ''Org1'',
        ApprovalOne = 0, ApprovalTwo = 0, Registered = 0\<rparr>)] @ (''asset2'', Malformed ''{'') # [(''asset3'', Encoded \<lparr>ID = ''asset3'', Description = ''desc'', Owner = ''Org2'',
        ApprovalOne = 0, ApprovalTwo = 0, Registered = 0\<rparr>)]"
    by (simp add: range_entries_def without_faults_def)
  have s4: "\<forall>kv \<in> set [(''asset1'', Encoded \<lparr>ID = ''asset1'', Description = ''myAsset'', Owner = ''Org1'',
        ApprovalOne = 0, ApprovalTwo = 0, Registered = 0\<rparr>)]. \<exists>asset. json_Unmarshal (snd kv) = Inr asset"
    by (simp add: json_Unmarshal_def)
  have t1: "fault ?t (GetStateByRangeCall [] []) = None"
    by (simp add: without_faults_def)
  have t2: "\<forall>i. fault ?t (NextCall i) = None"
    by (simp add: without_faults_def)
  have t3: "range_entries ?t [] [] = [(''asset1'', Encoded \<lparr>ID = ''asset1'', Description = ''myAsset'', Owner = ''Org1'',
        ApprovalOne = 0, ApprovalTwo = 0, Registered = 0\<rparr>), (''asset2'', Encoded \<lparr>ID = ''asset2'', Description = ''anotherAsset'', Owner = ''Org1'',
        ApprovalOne = 0, ApprovalTwo = 0, Registered = 0\<rparr>)]"
    by (simp add: range_entries_def without_faults_def)
  have t4: "\<forall>kv \<in> set (range_entries ?t [] []). \<exists>asset. json_Unmarshal (snd kv) = Inr asset"
    by (simp add: t3 json_Unmarshal_def)
  have a: "GetAllAssets ?s = Inl (DecodeFailure ''{'')"
    using GetAllAssets_all_or_nothing [OF s1 s2, of "[(''asset1'', Encoded \<lparr>ID = ''asset1'', Description = ''myAsset'', Owner = ''Org1'',
        ApprovalOne = 0, ApprovalTwo = 0, Registered = 0\<rparr>)]" "''asset2''"
        "''{''" "[(''asset3'', Encoded \<lparr>ID = ''asset3'', Description = ''desc'', Owner = ''Org2'',
        ApprovalOne = 0, ApprovalTwo = 0, Registered = 0\<rparr>)]"] s3 s4
    by blast
  have b: "GetAllAssets ?t =
     Inr [\<lparr>Key = ''asset1'', Record = \<lparr>ID = ''asset1'', Description = ''myAsset'', Owner = ''Org1'',
        ApprovalOne = 0, ApprovalTwo = 0, Registered = 0\<rparr>\<rparr>, \<lparr>Key = ''asset2'', Record = \<lparr>ID = ''asset2'', Description = ''anotherAsset'', Owner = ''Org1'',
        ApprovalOne = 0, ApprovalTwo = 0, Registered = 0\<rparr>\<rparr>]"
    using GetAllAssets_all_or_nothing [OF t1 t2] t4
    by (simp add: t3 json_Unmarshal_def coerce_asset_def)
  from a b s3 t3 show ?thesis
    by (intro conjI)
qed

subsection \<open>Errors and the world state\<close>

text \<open>
  Claim C10. When \<open>CreateAsset\<close>, \<open>UpdateAsset\<close>, \<open>DeleteAsset\<close>, \<open>TransferAsset\<close>,
  \<open>ApproveRequestOne\<close> or \<open>ApproveRequestTwo\<close> returns an error, the stub after the call
  is the stub before it: nothing was written and nothing was deleted.
\<close>

theorem error_leaves_world_state:
  "(fst (CreateAsset stub aid description owner approvalOne approvalTwo registered) \<noteq> None \<longrightarrow>
      snd (CreateAsset stub aid description owner approvalOne approvalTwo registered) = stub) \<and>
   (fst (UpdateAsset stub aid description owner approvalOne approvalTwo registered) \<noteq> None \<longrightarrow>
      snd (UpdateAsset stub aid description owner approvalOne approvalTwo registered) = stub) \<and>
   (fst (DeleteAsset stub aid) \<noteq> None \<longrightarrow> snd (DeleteAsset stub aid) = stub) \<and>
   (fst (TransferAsset stub aid newOwner) \<noteq> None \<longrightarrow>
      snd (TransferAsset stub aid newOwner) = stub) \<and>
   (fst (ApproveRequestOne stub aid) \<noteq> None \<longrightarrow> snd (ApproveRequestOne stub aid) = stub) \<and>
   (fst (ApproveRequestTwo stub aid) \<noteq> None \<longrightarrow> snd (ApproveRequestTwo stub aid) = stub)"
  by (auto simp: CreateAsset_def UpdateAsset_def DeleteAsset_def TransferAsset_def
        ApproveRequestOne_def ApproveRequestTwo_def marshal_and_put_cases DelState_def
      split: sum.splits option.splits if_splits)

text \<open>
  On a platform that refuses every write, with \<^verbatim>\<open>asset3\<close> stored: the creation fails on
  the existing key, the five others at their write.
\<close>

theorem error_leaves_world_state_witness:
  "CreateAsset (read_only [(''asset3'', Encoded \<lparr>ID = ''asset3'', Description = ''desc'', Owner = ''Org2'',
        ApprovalOne = 0, ApprovalTwo = 0, Registered = 0\<rparr>)]) ''asset3'' ''other'' ''Org1'' 1 1 1 =
     (Some (AlreadyExists ''asset3''), read_only [(''asset3'', Encoded \<lparr>ID = ''asset3'', Description = ''desc'', Owner = ''Org2'',
        ApprovalOne = 0, ApprovalTwo = 0, Registered = 0\<rparr>)]) \<and>
   UpdateAsset (read_only [(''asset3'', Encoded \<lparr>ID = ''asset3'', Description = ''desc'', Owner = ''Org2'',
        ApprovalOne = 0, ApprovalTwo = 0, Registered = 0\<rparr>)]) ''asset3'' ''other'' ''Org1'' 1 1 1 =
     (Some (StubError ''write refused''), read_only [(''asset3'', Encoded \<lparr>ID = ''asset3'', Description = ''desc'', Owner = ''Org2'',
        ApprovalOne = 0, ApprovalTwo = 0, Registered = 0\<rparr>)]) \<and>
   DeleteAsset (read_only [(''asset3'', Encoded \<lparr>ID = ''asset3'', Description = ''desc'', Owner = ''Org2'',
        ApprovalOne = 0, ApprovalTwo = 0, Registered = 0\<rparr>)]) ''asset3'' =
     (Some (StubError ''write refused''), read_only [(''asset3'', Encoded \<lparr>ID = ''asset3'', Description = ''desc'', Owner = ''Org2'',
        ApprovalOne = 0, ApprovalTwo = 0, Registered = 0\<rparr>)]) \<and>
   TransferAsset (read_only [(''asset3'', Encoded \<lparr>ID = ''asset3'', Description = ''desc'', Owner = ''Org2'',
        ApprovalOne = 0, ApprovalTwo = 0, Registered = 0\<rparr>)]) ''asset3'' ''Org1'' =
     (Some (StubError ''write refused''), read_only [(''asset3'', Encoded \<lparr>ID = ''asset3'', Description = ''desc'', Owner = ''Org2'',
        ApprovalOne = 0, ApprovalTwo = 0, Registered = 0\<rparr>)]) \<and>
   ApproveRequestOne (read_only [(''asset3'', Encoded \<lparr>ID = ''asset3'', Description = ''desc'', Owner = ''Org2'',
        ApprovalOne = 0, ApprovalTwo = 0, Registered = 0\<rparr>)]) ''asset3'' =
     (Some (StubError ''write refused''), read_only [(''asset3'', Encoded \<lparr>ID = ''asset3'', Description = ''desc'', Owner = ''Org2'',
        ApprovalOne = 0, ApprovalTwo = 0, Registered = 0\<rparr>)]) \<and>
   ApproveRequestTwo (read_only [(''asset3'', Encoded \<lparr>ID = ''asset3'', Description = ''desc'', Owner = ''Org2'',
        ApprovalOne = 0, ApprovalTwo = 0, Registered = 0\<rparr>)]) ''asset3'' =
     (Some (StubError ''write refused''), read_only [(''asset3'', Encoded \<lparr>ID = ''asset3'', Description = ''desc'', Owner = ''Org2'',
        ApprovalOne = 0, ApprovalTwo = 0, Registered = 0\<rparr>)])"
proof -
  let ?s = "read_only [(''asset3'', Encoded \<lparr>ID = ''asset3'', Description = ''desc'', Owner = ''Org2'',
        ApprovalOne = 0, ApprovalTwo = 0, Registered = 0\<rparr>)]"
  have c: "fst (CreateAsset ?s ''asset3'' ''other'' ''Org1'' 1 1 1) = Some (AlreadyExists ''asset3'')"
    by (simp add: read_only_def op_cases)
  have u: "fst (UpdateAsset ?s ''asset3'' ''other'' ''Org1'' 1 1 1) =
             Some (StubError ''write refused'')"
    by (simp add: read_only_def op_cases)
  have d: "fst (DeleteAsset ?s ''asset3'') = Some (StubError ''write refused'')"
    by (simp add: read_only_def op_cases)
  have t: "fst (TransferAsset ?s ''asset3'' ''Org1'') = Some (StubError ''write refused'')"
    by (simp add: read_only_def op_cases)
  have a1: "fst (ApproveRequestOne ?s ''asset3'') = Some (StubError ''write refused'')"
    by (simp add: read_only_def op_cases)
  have a2: "fst (ApproveRequestTwo ?s ''asset3'') = Some (StubError ''write refused'')"
    by (simp add: read_only_def op_cases)
  from error_leaves_world_state [of ?s "''asset3''" "''other''" "''Org1''" 1 1 1 "''Org1''"]
    c u d t a1 a2
  show ?thesis
    by (simp add: prod_eq_iff)
qed

subsection \<open>The Registered flag across all invocations\<close>

lemma is_registered_iff:
  "is_registered stub k \<longleftrightarrow>
   (\<exists>asset. map_of (world stub) k = Some (Encoded asset) \<and> Registered asset = 1)"
  by (auto simp: is_registered_def split: option.splits bytes.splits)

lemma registered_set_by:
  assumes "\<not> is_registered stub k" and "is_registered (snd (invoke stub op)) k"
  shows "op = ApproveRequestTwoI k \<or>
         (\<exists>description owner approvalOne approvalTwo.
             op = CreateAssetI k description owner approvalOne approvalTwo 1) \<or>
         (\<exists>description owner approvalOne approvalTwo.
             op = UpdateAssetI k description owner approvalOne approvalTwo 1)"
  using assms
  by (cases op)
     (auto simp: op_cases is_registered_iff update_conv' delete_conv'
        split: option.splits bytes.splits if_splits)

lemma registered_cleared_by:
  assumes "is_registered stub k" and "\<not> is_registered (snd (invoke stub op)) k"
  shows "(\<exists>description owner approvalOne approvalTwo registered.
             op = UpdateAssetI k description owner approvalOne approvalTwo registered \<and>
             registered \<noteq> 1) \<or>
         op = DeleteAssetI k \<or>
         (op = InitLedgerI \<and> (k = ''asset1'' \<or> k = ''asset2''))"
  using assms
  by (cases op)
     (auto simp: op_cases is_registered_iff update_conv' delete_conv'
        split: option.splits bytes.splits if_splits)

lemma ApproveRequestTwo_success_registers:
  "fst (ApproveRequestTwo stub k) = None \<Longrightarrow> is_registered (snd (ApproveRequestTwo stub k)) k"
  by (auto simp: op_cases is_registered_iff update_conv'
        split: option.splits bytes.splits if_splits)

text \<open>
  Claim C2 says that no invocation but the second approval sets \<open>Registered\<close> to 1 and
  that none but \<open>UpdateAsset\<close> resets it. \<open>CreateAsset\<close> stores the \<open>registered\<close> argument
  it is given: called with 1 on an empty world state it stores a record with
  \<open>Registered = 1\<close> and \<open>ApprovalTwo = 0\<close>. \<open>InitLedger\<close> writes its two fixed records
  over whatever is stored: a registered \<^verbatim>\<open>asset1\<close> reads \<open>Registered = 0\<close> afterwards.
\<close>

theorem Registered_only_by_second_approval_counterexample:
  "ReadAsset (without_faults []) ''asset3'' = Inl (NotFound ''asset3'') \<and>
   fst (invoke (without_faults []) (CreateAssetI ''asset3'' ''desc'' ''Org2'' 0 0 1)) = None \<and>
   ReadAsset (snd (invoke (without_faults []) (CreateAssetI ''asset3'' ''desc'' ''Org2'' 0 0 1)))
       ''asset3'' =
     Inr \<lparr>ID = ''asset3'', Description = ''desc'', Owner = ''Org2'',
        ApprovalOne = 0, ApprovalTwo = 0, Registered = 1\<rparr> \<and>
   ReadAsset (without_faults [(''asset1'', Encoded \<lparr>ID = ''asset1'', Description = ''myAsset'', Owner = ''Org1'',
        ApprovalOne = 1, ApprovalTwo = 1, Registered = 1\<rparr>)]) ''asset1'' = Inr \<lparr>ID = ''asset1'', Description = ''myAsset'', Owner = ''Org1'',
        ApprovalOne = 1, ApprovalTwo = 1, Registered = 1\<rparr> \<and>
   fst (invoke (without_faults [(''asset1'', Encoded \<lparr>ID = ''asset1'', Description = ''myAsset'', Owner = ''Org1'',
        ApprovalOne = 1, ApprovalTwo = 1, Registered = 1\<rparr>)]) InitLedgerI) = None \<and>
   ReadAsset (snd (invoke (without_faults [(''asset1'', Encoded \<lparr>ID = ''asset1'', Description = ''myAsset'', Owner = ''Org1'',
        ApprovalOne = 1, ApprovalTwo = 1, Registered = 1\<rparr>)]) InitLedgerI)) ''asset1'' =
     Inr \<lparr>ID = ''asset1'', Description = ''myAsset'', Owner = ''Org1'',
        ApprovalOne = 0, ApprovalTwo = 0, Registered = 0\<rparr>"
  by (simp add: without_faults_def op_cases)

text \<open>
  Claim C2, amended. \<open>ApproveRequestTwo\<close>, when it returns no error, leaves
  \<open>Registered = 1\<close> in the record under its key. An invocation takes the record under a
  key \<open>k\<close> from not registered to registered only if it is \<open>ApproveRequestTwo\<close> on \<open>k\<close>, or
  \<open>CreateAsset\<close> or \<open>UpdateAsset\<close> on \<open>k\<close> with the argument \<open>registered = 1\<close>. An
  invocation takes it from registered to not registered (or removes it) only if it is
  \<open>UpdateAsset\<close> on \<open>k\<close> with an argument \<open>registered\<close> other than 1, \<open>DeleteAsset\<close> on
  \<open>k\<close>, or \<open>InitLedger\<close> with \<open>k\<close> one of \<^verbatim>\<open>asset1\<close>, \<^verbatim>\<open>asset2\<close>.
\<close>

theorem Registered_transitions:
  "(fst (invoke stub (ApproveRequestTwoI k)) = None \<longrightarrow>
      is_registered (snd (invoke stub (ApproveRequestTwoI k))) k) \<and>
   (\<not> is_registered stub k \<and> is_registered (snd (invoke stub op)) k \<longrightarrow>
      op = ApproveRequestTwoI k \<or>
      (\<exists>description owner approvalOne approvalTwo.
          op = CreateAssetI k description owner approvalOne approvalTwo 1) \<or>
      (\<exists>description owner approvalOne approvalTwo.
          op = UpdateAssetI k description owner approvalOne approvalTwo 1)) \<and>
   (is_registered stub k \<and> \<not> is_registered (snd (invoke stub op)) k \<longrightarrow>
      (\<exists>description owner approvalOne approvalTwo registered.
          op = UpdateAssetI k description owner approvalOne approvalTwo registered \<and>
          registered \<noteq> 1) \<or>
      op = DeleteAssetI k \<or>
      (op = InitLedgerI \<and> (k = ''asset1'' \<or> k = ''asset2'')))"
proof (intro conjI impI)
  assume "fst (invoke stub (ApproveRequestTwoI k)) = None"
  then show "is_registered (snd (invoke stub (ApproveRequestTwoI k))) k"
    by (simp add: ApproveRequestTwo_success_registers)
next
  assume "\<not> is_registered stub k \<and> is_registered (snd (invoke stub op)) k"
  then show "op = ApproveRequestTwoI k \<or>
      (\<exists>description owner approvalOne approvalTwo.
          op = CreateAssetI k description owner approvalOne approvalTwo 1) \<or>
      (\<exists>description owner approvalOne approvalTwo.
          op = UpdateAssetI k description owner approvalOne approvalTwo 1)"
    using registered_set_by by blast
next
  assume "is_registered stub k \<and> \<not> is_registered (snd (invoke stub op)) k"
  then show "(\<exists>description owner approvalOne approvalTwo registered.
          op = UpdateAssetI k description owner approvalOne approvalTwo registered \<and>
          registered \<noteq> 1) \<or>
      op = DeleteAssetI k \<or>
      (op = InitLedgerI \<and> (k = ''asset1'' \<or> k = ''asset2''))"
    using registered_cleared_by by blast
qed

text \<open>
  The second approval registers \<^verbatim>\<open>asset3\<close>, which has no first approval; an update with
  \<open>registered = 0\<close> takes the registration away.
\<close>

theorem Registered_transitions_witness:
  "fst (invoke (without_faults [(''asset3'', Encoded \<lparr>ID = ''asset3'', Description = ''desc'', Owner = ''Org2'',
        ApprovalOne = 0, ApprovalTwo = 0, Registered = 0\<rparr>)]) (ApproveRequestTwoI ''asset3'')) = None \<and>
   \<not> is_registered (without_faults [(''asset3'', Encoded \<lparr>ID = ''asset3'', Description = ''desc'', Owner = ''Org2'',
        ApprovalOne = 0, ApprovalTwo = 0, Registered = 0\<rparr>)]) ''asset3'' \<and>
   is_registered
     (snd (invoke (without_faults [(''asset3'', Encoded \<lparr>ID = ''asset3'', Description = ''desc'', Owner = ''Org2'',
        ApprovalOne = 0, ApprovalTwo = 0, Registered = 0\<rparr>)]) (ApproveRequestTwoI ''asset3'')))
     ''asset3'' \<and>
   is_registered (without_faults [(''asset3'', Encoded \<lparr>ID = ''asset3'', Description = ''desc'', Owner = ''Org2'',
        ApprovalOne = 1, ApprovalTwo = 1, Registered = 1\<rparr>)]) ''asset3'' \<and>
   \<not> is_registered
     (snd (invoke (without_faults [(''asset3'', Encoded \<lparr>ID = ''asset3'', Description = ''desc'', Owner = ''Org2'',
        ApprovalOne = 1, ApprovalTwo = 1, Registered = 1\<rparr>)])
        (UpdateAssetI ''asset3'' ''desc'' ''Org2'' 0 0 0)))
     ''asset3''"
proof -
  let ?s = "without_faults [(''asset3'', Encoded \<lparr>ID = ''asset3'', Description = ''desc'', Owner = ''Org2'',
        ApprovalOne = 0, ApprovalTwo = 0, Registered = 0\<rparr>)]"
  let ?t = "without_faults [(''asset3'', Encoded \<lparr>ID = ''asset3'', Description = ''desc'', Owner = ''Org2'',
        ApprovalOne = 1, ApprovalTwo = 1, Registered = 1\<rparr>)]"
  have h1: "fst (invoke ?s (ApproveRequestTwoI ''asset3'')) = None"
    by (simp add: without_faults_def op_cases)
  have h2: "\<not> is_registered ?s ''asset3''"
    by (simp add: without_faults_def is_registered_def)
  have h3: "is_registered ?t ''asset3''"
    by (simp add: without_faults_def is_registered_def)
  have h4: "\<not> is_registered (snd (invoke ?t (UpdateAssetI ''asset3'' ''desc'' ''Org2'' 0 0 0)))
              ''asset3''"
    by (simp add: without_faults_def is_registered_def op_cases)
  from Registered_transitions [of ?s "''asset3''" "ApproveRequestTwoI ''asset3''"] h1
  have "is_registered (snd (invoke ?s (ApproveRequestTwoI ''asset3''))) ''asset3''"
    by blast
  with h1 h2 h3 h4 show ?thesis
    by (intro conjI)
qed

end
